theory Spec2Isabelle
  imports Main "HOL-Library.Word"
begin

section \<open>Prover initialisation (prover/init.go)\<close>

text \<open>
  The three initialisation routines of the prover, \<open>setApprovalAmount\<close>,
  \<open>initProofSubmitters\<close> and \<open>initL1Current\<close>, and the wiring routine
  \<open>initEventHandlers\<close>, as functions on an explicit prover state.

  The routines talk to collaborators (the RPC client, the token binding, the transaction
  sender). A collaborator is a field of the prover holding a function on an abstract
  outside world \<open>'w\<close>: it takes the world and returns its answer with the world after the
  call, so two calls of the same method may answer differently. Every call of a
  collaborator and every log line is appended to the field \<open>calls\<close> of the prover, in
  program order, so that "is called", "is never called" and "exactly once" are
  statements about that list.
\<close>

subsection \<open>Values\<close>

type_synonym address = "160 word"
type_synonym hash = "256 word"

text \<open>
  A Go \<open>error\<close> is modelled by its message, what its method \<open>Error()\<close> returns: the only
  test the code makes on an error besides \<open>err != nil\<close> compares messages. The nil error
  is \<open>None\<close> of \<open>error option\<close>.
\<close>

datatype error = GoError (Error: string)

text \<open>go-ethereum: \<^verbatim>\<open>var NotFound = errors.New("not found")\<close>.\<close>

definition ethereum_NotFound :: error where
  "ethereum_NotFound = GoError ''not found''"

text \<open>\<^verbatim>\<open>x.Cmp(y)\<close> of \<^verbatim>\<open>math/big\<close>: -1, 0 or +1.\<close>

definition Cmp :: "int \<Rightarrow> int \<Rightarrow> int" where
  "Cmp x y = (if x < y then - 1 else if x = y then 0 else 1)"

text \<open>\<^verbatim>\<open>common.Big0\<close>.\<close>

definition Big0 :: int where
  "Big0 = 0"

text \<open>
  Headers, L1 origins, receipts, transactions and transaction options come from the
  collaborators and are only passed on; of an L1 origin the code reads \<open>L1BlockHash\<close>,
  of a receipt \<open>TxHash\<close>.
\<close>

datatype header = Header (hdr_number: nat) (hdr_hash: hash)

record L1Origin =
  L1BlockHash :: hash

record receipt =
  TxHash :: hash

type_synonym transaction = nat
type_synonym transact_opts = nat
type_synonym tx_id = string
type_synonym chan = nat

text \<open>
  What the confirmation channel yields: the struct with the fields \<open>Receipt\<close> (a pointer)
  and \<open>Err\<close>.
\<close>

record TxConfirm =
  Receipt :: "receipt option"
  Err :: "error option"

text \<open>\<^verbatim>\<open>stateVars.A.GenesisHeight\<close> and \<^verbatim>\<open>stateVars.B.LastVerifiedBlockId\<close>, both \<open>uint64\<close>.\<close>

record slot_a =
  GenesisHeight :: "64 word"

record slot_b =
  LastVerifiedBlockId :: "64 word"

record state_variables =
  slotA :: slot_a
  slotB :: slot_b

text \<open>A tier of the protocol; the code reads its \<open>ID\<close>, a \<open>uint16\<close>.\<close>

record tier =
  tier_ID :: "16 word"

text \<open>
  The constants \<^verbatim>\<open>encoding.TierOptimisticID\<close>, \<^verbatim>\<open>encoding.TierSgxID\<close> and
  \<^verbatim>\<open>encoding.TierGuardianID\<close> are declared in \<^verbatim>\<open>bindings/encoding\<close>; they are taken as
  parameters.
\<close>

record encoding =
  TierOptimisticID :: "16 word"
  TierSgxID :: "16 word"
  TierGuardianID :: "16 word"

subsection \<open>Configuration\<close>

record config =
  Allowance :: "int option"
  RaikoHostEndpoint :: string
  L1HttpEndpoint :: string
  L1BeaconEndpoint :: string
  L2HttpEndpoint :: string
  Dummy :: bool
  EnableLivenessBondProof :: bool
  TaikoL2Address :: address
  Graffiti :: string
  BackOffRetryInterval :: int
  BackOffMaxRetrys :: "64 word"
  ContesterMode :: bool
  ProveUnassignedBlocks :: bool

subsection \<open>Proof producers and submitters\<close>

text \<open>
  The three producers \<open>initProofSubmitters\<close> builds. \<open>GuardianProofProducer\<close> stands for
  the result of \<^verbatim>\<open>proofProducer.NewGuardianProofProducer(flag)\<close>.
\<close>

datatype proof_producer =
  OptimisticProofProducer
| SGXProofProducer string string string string bool
| GuardianProofProducer bool

text \<open>
  The arguments of \<^verbatim>\<open>proofSubmitter.NewProofSubmitter\<close> that are values: the producer, the
  proof-generation channel, the L2 address, the graffiti, and the handles of the sender
  and of the transaction builder (\<open>p.rpc\<close> is the prover's one client).
\<close>

record submitter_args =
  sa_producer :: proof_producer
  sa_proofGenerationCh :: chan
  sa_taikoL2Address :: address
  sa_graffiti :: string
  sa_sender :: nat
  sa_txBuilder :: nat

datatype submitter = Submitter submitter_args

subsection \<open>Event handlers\<close>

record NewBlockProposedEventHandlerOps =
  ops_ProverAddress :: address
  ops_GenesisHeightL1 :: "64 word"
  ops_ProofGenerationCh :: chan
  ops_AssignmentExpiredCh :: chan
  ops_ProofSubmissionCh :: chan
  ops_ProofContestCh :: chan
  ops_BackOffRetryInterval :: int
  ops_BackOffMaxRetrys :: "64 word"
  ops_ContesterMode :: bool
  ops_ProveUnassignedBlocks :: bool

datatype block_proposed_handler =
  BlockProposedEventHandler NewBlockProposedEventHandlerOps
| BlockProposedEventGuardianHandler NewBlockProposedEventHandlerOps nat

datatype transition_proved_handler = TransitionProvedEventHandler chan bool

datatype transition_contested_handler = TransitionContestedEventHandler chan bool

datatype assignment_expired_handler = AssignmentExpiredEventHandler address chan chan bool

datatype block_verified_handler = BlockVerifiedEventHandler

record handlers =
  blockProposedHandler :: "block_proposed_handler option"
  transitionProvedHandler :: "transition_proved_handler option"
  transitionContestedHandler :: "transition_contested_handler option"
  assignmentExpiredHandler :: "assignment_expired_handler option"
  blockVerifiedHandler :: "block_verified_handler option"

subsection \<open>The trace of calls\<close>

datatype level = Info | Warn

datatype logval = LInt int | LHash hash | LAddr address

datatype call =
  Log level string "(string \<times> logval) list"
| Allowance_call address address
| GetOpts_call
| Approve_call transact_opts address int
| SendTransaction_call transaction
| TxToConfirmChannel_call tx_id
| NewProofSubmitter_call submitter_args
| WaitTillL2ExecutionEngineSynced_call
| GetProtocolStateVariables_call
| HeaderByNumber_call "int option"
| HeaderByHash_call hash
| L1OriginByID_call int
| SetL1Current_call header

subsection \<open>Collaborators\<close>

text \<open>
  A Go method returning \<open>(value, error)\<close> answers \<open>Inl err\<close> or \<open>Inr value\<close>; one
  returning \<open>error\<close> answers an \<open>error option\<close>. \<open>HeaderByNumber\<close> takes a \<^verbatim>\<open>*big.Int\<close>,
  \<open>None\<close> for nil.
\<close>

record 'w rpc_client =
  TaikoToken_Allowance :: "address \<Rightarrow> address \<Rightarrow> 'w \<Rightarrow> (error + int) \<times> 'w"
  TaikoToken_Approve :: "transact_opts \<Rightarrow> address \<Rightarrow> int \<Rightarrow> 'w \<Rightarrow> (error + transaction) \<times> 'w"
  WaitTillL2ExecutionEngineSynced :: "'w \<Rightarrow> error option \<times> 'w"
  GetProtocolStateVariables :: "'w \<Rightarrow> (error + state_variables) \<times> 'w"
  L1_HeaderByNumber :: "int option \<Rightarrow> 'w \<Rightarrow> (error + header) \<times> 'w"
  L1_HeaderByHash :: "hash \<Rightarrow> 'w \<Rightarrow> (error + header) \<times> 'w"
  L2_L1OriginByID :: "int \<Rightarrow> 'w \<Rightarrow> (error + L1Origin) \<times> 'w"

record 'w tx_sender =
  GetOpts :: "'w \<Rightarrow> transact_opts \<times> 'w"
  SendTransaction :: "transaction \<Rightarrow> 'w \<Rightarrow> (error + tx_id) \<times> 'w"
  TxToConfirmChannel :: "tx_id \<Rightarrow> 'w \<Rightarrow> TxConfirm \<times> 'w"

subsection \<open>Shared state and the prover\<close>

record shared_state =
  tiers :: "tier list"
  l1Current :: "header option"

text \<open>
  The fields of \<open>Prover\<close> that \<^verbatim>\<open>init.go\<close> reads or writes. \<open>proverAddress\<close> is what
  \<^verbatim>\<open>p.ProverAddress()\<close> returns and \<open>isGuardianProver\<close> what \<^verbatim>\<open>p.IsGuardianProver()\<close>
  returns; both methods are declared in another file and are taken as parameters, as are
  the tier constants \<open>enc\<close> and the constructor \<open>NewProofSubmitter\<close>.
\<close>

record 'w prover =
  cfg :: config
  rpc :: "'w rpc_client"
  txSender :: "'w tx_sender"
  NewProofSubmitter :: "submitter_args \<Rightarrow> 'w \<Rightarrow> (error + submitter) \<times> 'w"
  enc :: encoding
  proverAddress :: address
  isGuardianProver :: bool
  guardianProverHeartbeater :: nat
  proofGenerationCh :: chan
  assignmentExpiredCh :: chan
  proofSubmissionCh :: chan
  proofContestCh :: chan
  sharedState :: shared_state
  genesisHeightL1 :: "64 word"
  proofSubmitters :: "submitter list"
  eventHandlers :: handlers
  world :: 'w
  calls :: "call list"

text \<open>
  What a routine does besides changing the prover: it returns its \<open>error\<close> (\<open>None\<close> for
  nil), or it panics on a nil pointer.
\<close>

datatype outcome = Return "error option" | Panic

text \<open>Recording a log line, and calling a collaborator.\<close>

definition log_line :: "level \<Rightarrow> string \<Rightarrow> (string \<times> logval) list \<Rightarrow> 'w prover \<Rightarrow> 'w prover" where
  "log_line l msg kv p = p\<lparr>calls := calls p @ [Log l msg kv]\<rparr>"

definition invoke :: "call \<Rightarrow> ('w \<Rightarrow> 'a \<times> 'w) \<Rightarrow> 'w prover \<Rightarrow> 'a \<times> 'w prover" where
  "invoke c f p = (case f (world p) of (r, w') \<Rightarrow> (r, p\<lparr>world := w', calls := calls p @ [c]\<rparr>))"

subsection \<open>setApprovalAmount\<close>

definition setApprovalAmount :: "address \<Rightarrow> 'w prover \<Rightarrow> outcome \<times> 'w prover" where
  "setApprovalAmount contract p =
    (if (case Allowance (cfg p) of None \<Rightarrow> True | Some a \<Rightarrow> Cmp a Big0 \<noteq> 1) then
       (Return None,
        log_line Info ''Skipping setting approval, `--prover.allowance` flag not set'' [] p)
     else
       let cfgAllowance = the (Allowance (cfg p)) in
       case invoke (Allowance_call (proverAddress p) contract)
              (TaikoToken_Allowance (rpc p) (proverAddress p) contract) p of
         (Inl err, p1) \<Rightarrow> (Return (Some err), p1)
       | (Inr allowance, p1) \<Rightarrow>
           let p2 = log_line Info ''Existing allowance for the contract''
                      [(''allowance'', LInt allowance), (''contract'', LAddr contract)] p1 in
           if Cmp allowance cfgAllowance \<ge> 0 then
             (Return None,
              log_line Info ''Skipping setting allowance, allowance already greater or equal''
                [(''allowance'', LInt allowance), (''approvalAmount'', LInt cfgAllowance),
                 (''contract'', LAddr contract)] p2)
           else
             case invoke GetOpts_call (GetOpts (txSender p2)) p2 of (opts, p3) \<Rightarrow>
             let p4 = log_line Info ''Approving the contract for taiko token''
                        [(''allowance'', LInt cfgAllowance), (''contract'', LAddr contract)] p3 in
             case invoke (Approve_call opts contract cfgAllowance)
                    (TaikoToken_Approve (rpc p4) opts contract cfgAllowance) p4 of
               (Inl err, p5) \<Rightarrow> (Return (Some err), p5)
             | (Inr tx, p5) \<Rightarrow>
                 case invoke (SendTransaction_call tx) (SendTransaction (txSender p5) tx) p5 of
                   (Inl err, p6) \<Rightarrow> (Return (Some err), p6)
                 | (Inr txid, p6) \<Rightarrow>
                     case invoke (TxToConfirmChannel_call txid)
                            (TxToConfirmChannel (txSender p6) txid) p6 of (confirm, p7) \<Rightarrow>
                     case Err confirm of
                       Some e \<Rightarrow> (Return (Some e), p7)
                     | None \<Rightarrow>
                         case Receipt confirm of
                           None \<Rightarrow> (Panic, p7)
                         | Some rcpt \<Rightarrow>
                             let p8 = log_line Info ''Approved the contract for taiko token''
                                        [(''txHash'', LHash (TxHash rcpt)),
                                         (''contract'', LAddr contract)] p7 in
                             case invoke (Allowance_call (proverAddress p8) contract)
                                    (TaikoToken_Allowance (rpc p8) (proverAddress p8) contract) p8 of
                               (Inl err, p9) \<Rightarrow> (Return (Some err), p9)
                             | (Inr allowance', p9) \<Rightarrow>
                                 (Return None,
                                  log_line Info ''New allowance for the contract''
                                    [(''allowance'', LInt allowance'),
                                     (''contract'', LAddr contract)] p9))"

subsection \<open>initProofSubmitters\<close>






subsection \<open>initL1Current\<close>

text \<open>
  Modelled from the spec: \<open>SetL1Current\<close> is a method of the shared state, declared in
  another package; it writes the header into the cursor \<open>l1Current\<close>.
\<close>

definition SetL1Current :: "header \<Rightarrow> 'w prover \<Rightarrow> 'w prover" where
  "SetL1Current h p =
     p\<lparr>sharedState := (sharedState p)\<lparr>l1Current := Some h\<rparr>,
       calls := calls p @ [SetL1Current_call h]\<rparr>"

text \<open>
  The second half of \<open>initL1Current\<close>, from the log line \<^verbatim>\<open>"Init L1Current cursor"\<close> on,
  with the starting block ID that is non-nil there.
\<close>

definition initL1Current_fromOrigin :: "int \<Rightarrow> 'w prover \<Rightarrow> error option \<times> 'w prover" where
  "initL1Current_fromOrigin startingBlockID p =
    (let p1 = log_line Info ''Init L1Current cursor'' [(''startingBlockID'', LInt startingBlockID)] p in
     case invoke (L1OriginByID_call startingBlockID) (L2_L1OriginByID (rpc p1) startingBlockID) p1 of
       (Inl err, p2) \<Rightarrow>
         if Error err = Error ethereum_NotFound then
           let p3 = log_line Warn ''Failed to find L1Origin for blockID, use latest L1 head instead''
                      [(''blockID'', LInt startingBlockID)] p2 in
           (case invoke (HeaderByNumber_call None) (L1_HeaderByNumber (rpc p3) None) p3 of
              (Inl err', p4) \<Rightarrow> (Some err', p4)
            | (Inr l1Head, p4) \<Rightarrow> (None, SetL1Current l1Head p4))
         else (Some err, p2)
     | (Inr latestVerifiedHeaderL1Origin, p2) \<Rightarrow>
         (case invoke (HeaderByHash_call (L1BlockHash latestVerifiedHeaderL1Origin))
                 (L1_HeaderByHash (rpc p2) (L1BlockHash latestVerifiedHeaderL1Origin)) p2 of
            (Inl err, p3) \<Rightarrow> (Some err, p3)
          | (Inr l1Current', p3) \<Rightarrow> (None, SetL1Current l1Current' p3)))"

text \<open>\<^verbatim>\<open>new(big.Int).SetUint64(x)\<close> is \<open>uint x\<close>.\<close>

definition initL1Current :: "int option \<Rightarrow> 'w prover \<Rightarrow> error option \<times> 'w prover" where
  "initL1Current startingBlockID p =
    (case invoke WaitTillL2ExecutionEngineSynced_call (WaitTillL2ExecutionEngineSynced (rpc p)) p of
       (Some err, p1) \<Rightarrow> (Some err, p1)
     | (None, p1) \<Rightarrow>
         (case invoke GetProtocolStateVariables_call (GetProtocolStateVariables (rpc p1)) p1 of
            (Inl err, p2) \<Rightarrow> (Some err, p2)
          | (Inr stateVars, p2) \<Rightarrow>
              let p3 = p2\<lparr>genesisHeightL1 := GenesisHeight (slotA stateVars)\<rparr> in
              (case startingBlockID of
                 None \<Rightarrow>
                   if LastVerifiedBlockId (slotB stateVars) = 0 then
                     (case invoke (HeaderByNumber_call (Some (uint (GenesisHeight (slotA stateVars)))))
                             (L1_HeaderByNumber (rpc p3) (Some (uint (GenesisHeight (slotA stateVars))))) p3 of
                        (Inl err, p4) \<Rightarrow> (Some err, p4)
                      | (Inr genesisL1Header, p4) \<Rightarrow> (None, SetL1Current genesisL1Header p4))
                   else
                     initL1Current_fromOrigin (uint (LastVerifiedBlockId (slotB stateVars))) p3
               | Some sid \<Rightarrow> initL1Current_fromOrigin sid p3)))"

subsection \<open>initEventHandlers\<close>


subsection \<open>Reading the trace\<close>


fun is_GetOpts :: "call \<Rightarrow> bool" where
  "is_GetOpts GetOpts_call = True"
| "is_GetOpts _ = False"

fun is_Approve :: "call \<Rightarrow> bool" where
  "is_Approve (Approve_call _ _ _) = True"
| "is_Approve _ = False"

fun is_SendTransaction :: "call \<Rightarrow> bool" where
  "is_SendTransaction (SendTransaction_call _) = True"
| "is_SendTransaction _ = False"

fun is_TxToConfirmChannel :: "call \<Rightarrow> bool" where
  "is_TxToConfirmChannel (TxToConfirmChannel_call _) = True"
| "is_TxToConfirmChannel _ = False"


fun is_L1OriginByID :: "call \<Rightarrow> bool" where
  "is_L1OriginByID (L1OriginByID_call _) = True"
| "is_L1OriginByID _ = False"



text \<open>How many calls of one kind the trace holds.\<close>

definition count_calls :: "(call \<Rightarrow> bool) \<Rightarrow> call list \<Rightarrow> nat" where
  "count_calls P cs = length (filter P cs)"

subsection \<open>Example provers\<close>

text \<open>
  A prover for the examples: its outside world is the number of collaborator calls
  answered so far, and each collaborator answers from a script. The allowance query
  answers by that number, so that the query before the approval and the one after it can
  differ.
\<close>

record script =
  s_allowance :: "nat \<Rightarrow> error + int"
  s_approve :: "error + transaction"
  s_send :: "error + tx_id"
  s_confirm :: TxConfirm
  s_newSubmitter :: "error option"
  s_wait :: "error option"
  s_stateVars :: "error + state_variables"
  s_headerByNumber :: "int option \<Rightarrow> error + header"
  s_headerByHash :: "hash \<Rightarrow> error + header"
  s_l1Origin :: "int \<Rightarrow> error + L1Origin"

definition demo_cfg :: "int option \<Rightarrow> config" where
  "demo_cfg a =
     \<lparr>Allowance = a, RaikoHostEndpoint = ''http://raiko:8080'', L1HttpEndpoint = ''http://l1:8545'',
      L1BeaconEndpoint = ''http://beacon:5052'', L2HttpEndpoint = ''http://l2:8545'', Dummy = False,
      EnableLivenessBondProof = True, TaikoL2Address = 0x1670010000000000000000000000000000010001,
      Graffiti = ''demo'', BackOffRetryInterval = 12000000000, BackOffMaxRetrys = 10,
      ContesterMode = False, ProveUnassignedBlocks = True\<rparr>"

definition demo_prover :: "config \<Rightarrow> tier list \<Rightarrow> script \<Rightarrow> nat prover" where
  "demo_prover c ts s =
     \<lparr>cfg = c,
      rpc = \<lparr>TaikoToken_Allowance = (\<lambda>owner spender w. (s_allowance s w, Suc w)),
             TaikoToken_Approve = (\<lambda>opts spender amount w. (s_approve s, Suc w)),
             WaitTillL2ExecutionEngineSynced = (\<lambda>w. (s_wait s, Suc w)),
             GetProtocolStateVariables = (\<lambda>w. (s_stateVars s, Suc w)),
             L1_HeaderByNumber = (\<lambda>n w. (s_headerByNumber s n, Suc w)),
             L1_HeaderByHash = (\<lambda>h w. (s_headerByHash s h, Suc w)),
             L2_L1OriginByID = (\<lambda>i w. (s_l1Origin s i, Suc w))\<rparr>,
      txSender = \<lparr>GetOpts = (\<lambda>w. (7, Suc w)),
                  SendTransaction = (\<lambda>tx w. (s_send s, Suc w)),
                  TxToConfirmChannel = (\<lambda>txid w. (s_confirm s, Suc w))\<rparr>,
      NewProofSubmitter =
        (\<lambda>args w. (case s_newSubmitter s of Some e \<Rightarrow> Inl e | None \<Rightarrow> Inr (Submitter args), Suc w)),
      enc = \<lparr>TierOptimisticID = 100, TierSgxID = 200, TierGuardianID = 1000\<rparr>,
      proverAddress = 0x70997970C51812dc3A010C7d01b50e0d17dc79C8, isGuardianProver = False,
      guardianProverHeartbeater = 0,
      proofGenerationCh = 1, assignmentExpiredCh = 2, proofSubmissionCh = 3, proofContestCh = 4,
      sharedState = \<lparr>tiers = ts, l1Current = None\<rparr>, genesisHeightL1 = 0, proofSubmitters = [],
      eventHandlers = \<lparr>blockProposedHandler = None, transitionProvedHandler = None,
                        transitionContestedHandler = None, assignmentExpiredHandler = None,
                        blockVerifiedHandler = None\<rparr>,
      world = 0, calls = []\<rparr>"

definition demo_stateVars :: "64 word \<Rightarrow> 64 word \<Rightarrow> state_variables" where
  "demo_stateVars g v = \<lparr>slotA = \<lparr>GenesisHeight = g\<rparr>, slotB = \<lparr>LastVerifiedBlockId = v\<rparr>\<rparr>"

text \<open>
  The script in which every collaborator succeeds: no allowance on chain, the genesis
  header at L1 height 5, the L1 head at height 900, L1 origins known for every block, and
  the header of hash \<open>h\<close> at height 77.
\<close>

definition happy :: "64 word \<Rightarrow> script" where
  "happy lastVerified =
     \<lparr>s_allowance = (\<lambda>w. Inr 0), s_approve = Inr 41, s_send = Inr ''tx-1'',
      s_confirm = \<lparr>Receipt = Some \<lparr>TxHash = 0xabc\<rparr>, Err = None\<rparr>,
      s_newSubmitter = None, s_wait = None,
      s_stateVars = Inr (demo_stateVars 5 lastVerified),
      s_headerByNumber = (\<lambda>n. case n of None \<Rightarrow> Inr (Header 900 0x900) | Some k \<Rightarrow> Inr (Header (nat k) 0x5)),
      s_headerByHash = (\<lambda>h. Inr (Header 77 h)),
      s_l1Origin = (\<lambda>i. Inr \<lparr>L1BlockHash = 0x77\<rparr>)\<rparr>"

lemmas demo_defs = demo_cfg_def demo_prover_def demo_stateVars_def happy_def

text \<open>The address of the contract in the examples.\<close>

definition taikoL1 :: address where
  "taikoL1 = 0x9fE46736679d2D9a65F0992F2272dE9f3c7fa6e0"

text \<open>The configured allowance is 100 and 150 are already approved on chain.\<close>

definition scenario_B :: "nat prover" where
  "scenario_B = demo_prover (demo_cfg (Some 100)) [] ((happy 0)\<lparr>s_allowance := (\<lambda>w. Inr 150)\<rparr>)"

text \<open>The configured allowance is 100, nothing is approved on chain, every call succeeds.\<close>

definition scenario_C :: "nat prover" where
  "scenario_C = demo_prover (demo_cfg (Some 100)) [] (happy 0)"

text \<open>As \<open>scenario_C\<close>, but the confirmation reports an error.\<close>

definition scenario_C_reverted :: "nat prover" where
  "scenario_C_reverted =
     demo_prover (demo_cfg (Some 100)) []
       ((happy 0)\<lparr>s_confirm := \<lparr>Receipt = None, Err = Some (GoError ''execution reverted'')\<rparr>\<rparr>)"

text \<open>As \<open>scenario_C\<close>, but the binding fails to build the Approve transaction.\<close>

definition scenario_approve_fails :: "nat prover" where
  "scenario_approve_fails =
     demo_prover (demo_cfg (Some 100)) [] ((happy 0)\<lparr>s_approve := Inl (GoError ''no signer'')\<rparr>)"

text \<open>As \<open>scenario_C\<close>, but every allowance query after the first fails.\<close>

definition scenario_requery_fails :: "nat prover" where
  "scenario_requery_fails =
     demo_prover (demo_cfg (Some 100)) []
       ((happy 0)\<lparr>s_allowance := (\<lambda>w. if w = 0 then Inr 0 else Inl (GoError ''connection reset''))\<rparr>)"

text \<open>The configured allowance is 100 and every allowance query fails.\<close>

definition scenario_allowance_fails :: "nat prover" where
  "scenario_allowance_fails =
     demo_prover (demo_cfg (Some 100)) []
       ((happy 0)\<lparr>s_allowance := (\<lambda>w. Inl (GoError ''connection reset''))\<rparr>)"

text \<open>No block is verified yet (\<open>lastVerifiedBlockID = 0\<close>) and every call succeeds.\<close>

definition scenario_genesis :: "nat prover" where
  "scenario_genesis = demo_prover (demo_cfg None) [] (happy 0)"

text \<open>Block 7 is the last verified one and every call succeeds.\<close>

definition scenario_verified :: "nat prover" where
  "scenario_verified = demo_prover (demo_cfg None) [] (happy 7)"

text \<open>Block 7 is the last verified one and the L2 node has no L1 origin for it yet.\<close>

definition scenario_not_indexed :: "nat prover" where
  "scenario_not_indexed =
     demo_prover (demo_cfg None) [] ((happy 7)\<lparr>s_l1Origin := (\<lambda>i. Inl (GoError ''not found''))\<rparr>)"

text \<open>As \<open>scenario_not_indexed\<close>, but the lookup of the L1 head fails too.\<close>

definition scenario_no_head :: "nat prover" where
  "scenario_no_head =
     demo_prover (demo_cfg None) []
       ((happy 7)\<lparr>s_l1Origin := (\<lambda>i. Inl (GoError ''not found'')),
                  s_headerByNumber := (\<lambda>n. Inl (GoError ''connection refused''))\<rparr>)"

text \<open>Block 7 is the last verified one and the L1 origin lookup times out.\<close>

definition scenario_origin_timeout :: "nat prover" where
  "scenario_origin_timeout =
     demo_prover (demo_cfg None) []
       ((happy 7)\<lparr>s_l1Origin := (\<lambda>i. Inl (GoError ''context deadline exceeded''))\<rparr>)"





lemmas scenario_defs = scenario_B_def scenario_C_def scenario_C_reverted_def
  scenario_approve_fails_def scenario_requery_fails_def scenario_allowance_fails_def
  scenario_genesis_def scenario_verified_def scenario_not_indexed_def scenario_no_head_def
  scenario_origin_timeout_def

lemmas initL1Current_defs = initL1Current_def initL1Current_fromOrigin_def invoke_def
  log_line_def SetL1Current_def ethereum_NotFound_def


section \<open>Properties\<close>

lemma count_calls_simps [simp]:
  "count_calls P [] = 0"
  "count_calls P (c # cs) = (if P c then Suc (count_calls P cs) else count_calls P cs)"
  "count_calls P (xs @ ys) = count_calls P xs + count_calls P ys"
  by (simp_all add: count_calls_def)

lemma Cmp_simps [simp]:
  "Cmp x y = 1 \<longleftrightarrow> y < x"
  "0 \<le> Cmp x y \<longleftrightarrow> y \<le> x"
  by (auto simp: Cmp_def)

subsection \<open>setApprovalAmount\<close>

text \<open>
  C9. When the configured allowance is nil or not strictly positive, \<open>setApprovalAmount\<close>
  returns nil at once: the outside world is untouched and the only thing it does is write
  one log line, so there is no allowance query, no transaction and no call of the sender.
\<close>

theorem setApprovalAmount_skips_without_allowance:
  assumes "Allowance (cfg p) = None \<or> (\<exists>a. Allowance (cfg p) = Some a \<and> a \<le> 0)"
  shows "setApprovalAmount contract p =
           (Return None,
            p\<lparr>calls := calls p @
               [Log Info ''Skipping setting approval, `--prover.allowance` flag not set'' []]\<rparr>)"
  using assms by (auto simp: setApprovalAmount_def Big0_def log_line_def)

theorem setApprovalAmount_skips_without_allowance_witness:
  "(Allowance (cfg (demo_prover (demo_cfg (Some (- 3))) [] (happy 0))) = None
     \<or> (\<exists>a. Allowance (cfg (demo_prover (demo_cfg (Some (- 3))) [] (happy 0))) = Some a \<and> a \<le> 0))
   \<and> fst (setApprovalAmount taikoL1 (demo_prover (demo_cfg (Some (- 3))) [] (happy 0))) = Return None
   \<and> world (snd (setApprovalAmount taikoL1 (demo_prover (demo_cfg (Some (- 3))) [] (happy 0)))) = 0
   \<and> calls (snd (setApprovalAmount taikoL1 (demo_prover (demo_cfg (Some (- 3))) [] (happy 0)))) =
       [Log Info ''Skipping setting approval, `--prover.allowance` flag not set'' []]"
proof -
  have h: "Allowance (cfg (demo_prover (demo_cfg (Some (- 3))) [] (happy 0))) = None
     \<or> (\<exists>a. Allowance (cfg (demo_prover (demo_cfg (Some (- 3))) [] (happy 0))) = Some a \<and> a \<le> 0)"
    by (simp add: demo_defs)
  show ?thesis
    using h setApprovalAmount_skips_without_allowance [OF h, of taikoL1]
    by (simp add: demo_defs)
qed

text \<open>
  C5. When the allowance already on chain is at least the configured one,
  \<open>setApprovalAmount\<close> returns nil and neither asks the sender for options, nor builds an
  Approve transaction, nor sends one, nor waits for a confirmation.
\<close>

theorem setApprovalAmount_enough_allowance:
  assumes "Allowance (cfg p) = Some a"
      and "TaikoToken_Allowance (rpc p) (proverAddress p) contract (world p) = (Inr e, w1)"
      and "a \<le> e"
  shows "fst (setApprovalAmount contract p) = Return None
       \<and> count_calls is_GetOpts (calls (snd (setApprovalAmount contract p))) = count_calls is_GetOpts (calls p)
       \<and> count_calls is_Approve (calls (snd (setApprovalAmount contract p))) = count_calls is_Approve (calls p)
       \<and> count_calls is_SendTransaction (calls (snd (setApprovalAmount contract p))) =
           count_calls is_SendTransaction (calls p)
       \<and> count_calls is_TxToConfirmChannel (calls (snd (setApprovalAmount contract p))) =
           count_calls is_TxToConfirmChannel (calls p)"
  using assms by (simp add: setApprovalAmount_def Big0_def invoke_def log_line_def)

theorem setApprovalAmount_enough_allowance_witness:
  "Allowance (cfg scenario_B) = Some 100
   \<and> TaikoToken_Allowance (rpc scenario_B) (proverAddress scenario_B) taikoL1 (world scenario_B) = (Inr 150, 1)
   \<and> (100::int) \<le> 150
   \<and> fst (setApprovalAmount taikoL1 scenario_B) = Return None
   \<and> count_calls is_Approve (calls (snd (setApprovalAmount taikoL1 scenario_B))) = 0
   \<and> count_calls is_SendTransaction (calls (snd (setApprovalAmount taikoL1 scenario_B))) = 0"
proof -
  have h1: "Allowance (cfg scenario_B) = Some 100"
    by (simp add: scenario_defs demo_defs)
  have h2: "TaikoToken_Allowance (rpc scenario_B) (proverAddress scenario_B) taikoL1 (world scenario_B) = (Inr 150, 1)"
    by (simp add: scenario_defs demo_defs)
  have h3: "(100::int) \<le> 150" by simp
  have "calls scenario_B = []"
    by (simp add: scenario_defs demo_defs)
  then show ?thesis
    using h1 h2 setApprovalAmount_enough_allowance [OF h1 h2 h3] by simp
qed







text \<open>
  C10. After the Approve transaction was sent and its confirmation carried a receipt and no
  error, \<open>setApprovalAmount\<close> always queries the allowance again (the ninth thing it does),
  and when that query fails it returns the query's error, although the approval is
  confirmed; when the query succeeds it returns nil.
\<close>

theorem setApprovalAmount_requery_error:
  assumes "Allowance (cfg p) = Some a" and "0 < a"
      and "TaikoToken_Allowance (rpc p) (proverAddress p) contract (world p) = (Inr e, w1)"
      and "e < a"
      and "GetOpts (txSender p) w1 = (opts, w2)"
      and "TaikoToken_Approve (rpc p) opts contract a w2 = (Inr tx, w3)"
      and "SendTransaction (txSender p) tx w3 = (Inr txid, w4)"
      and "TxToConfirmChannel (txSender p) txid w4 = (confirm, w5)"
      and "Err confirm = None" and "Receipt confirm = Some rcpt"
      and "TaikoToken_Allowance (rpc p) (proverAddress p) contract w5 = (requery, w6)"
  shows "take 9 (drop (length (calls p)) (calls (snd (setApprovalAmount contract p)))) =
           [Allowance_call (proverAddress p) contract,
            Log Info ''Existing allowance for the contract''
              [(''allowance'', LInt e), (''contract'', LAddr contract)],
            GetOpts_call,
            Log Info ''Approving the contract for taiko token''
              [(''allowance'', LInt a), (''contract'', LAddr contract)],
            Approve_call opts contract a,
            SendTransaction_call tx,
            TxToConfirmChannel_call txid,
            Log Info ''Approved the contract for taiko token''
              [(''txHash'', LHash (TxHash rcpt)), (''contract'', LAddr contract)],
            Allowance_call (proverAddress p) contract]
       \<and> world (snd (setApprovalAmount contract p)) = w6
       \<and> (\<forall>err. requery = Inl err \<longrightarrow> fst (setApprovalAmount contract p) = Return (Some err))
       \<and> (\<forall>v. requery = Inr v \<longrightarrow> fst (setApprovalAmount contract p) = Return None)"
  using assms
  by (auto simp: setApprovalAmount_def Big0_def invoke_def log_line_def split: sum.split)

theorem setApprovalAmount_requery_error_witness:
  "Allowance (cfg scenario_requery_fails) = Some 100 \<and> (0::int) < 100
   \<and> TaikoToken_Allowance (rpc scenario_requery_fails) (proverAddress scenario_requery_fails) taikoL1
        (world scenario_requery_fails) = (Inr 0, 1)
   \<and> GetOpts (txSender scenario_requery_fails) 1 = (7, 2)
   \<and> TaikoToken_Approve (rpc scenario_requery_fails) 7 taikoL1 100 2 = (Inr 41, 3)
   \<and> SendTransaction (txSender scenario_requery_fails) 41 3 = (Inr ''tx-1'', 4)
   \<and> TxToConfirmChannel (txSender scenario_requery_fails) ''tx-1'' 4 =
        (\<lparr>Receipt = Some \<lparr>TxHash = 0xabc\<rparr>, Err = None\<rparr>, 5)
   \<and> TaikoToken_Allowance (rpc scenario_requery_fails) (proverAddress scenario_requery_fails) taikoL1 5 =
        (Inl (GoError ''connection reset''), 6)
   \<and> fst (setApprovalAmount taikoL1 scenario_requery_fails) = Return (Some (GoError ''connection reset''))
   \<and> world (snd (setApprovalAmount taikoL1 scenario_requery_fails)) = 6"
proof -
  have h1: "Allowance (cfg scenario_requery_fails) = Some 100"
    and h3: "TaikoToken_Allowance (rpc scenario_requery_fails) (proverAddress scenario_requery_fails)
               taikoL1 (world scenario_requery_fails) = (Inr 0, 1)"
    and h5: "GetOpts (txSender scenario_requery_fails) 1 = (7, 2)"
    and h6: "TaikoToken_Approve (rpc scenario_requery_fails) 7 taikoL1 100 2 = (Inr 41, 3)"
    and h7: "SendTransaction (txSender scenario_requery_fails) 41 3 = (Inr ''tx-1'', 4)"
    and h8: "TxToConfirmChannel (txSender scenario_requery_fails) ''tx-1'' 4 =
               (\<lparr>Receipt = Some \<lparr>TxHash = 0xabc\<rparr>, Err = None\<rparr>, 5)"
    and h11: "TaikoToken_Allowance (rpc scenario_requery_fails) (proverAddress scenario_requery_fails)
                taikoL1 5 = (Inl (GoError ''connection reset''), 6)"
    and h0: "calls scenario_requery_fails = []"
    by (simp_all add: scenario_defs demo_defs)
  have pos: "(0::int) < 100" by simp
  have h9: "Err \<lparr>Receipt = Some \<lparr>TxHash = 0xabc\<rparr>, Err = None\<rparr> = None"
    and h10: "Receipt \<lparr>Receipt = Some \<lparr>TxHash = 0xabc\<rparr>, Err = None\<rparr> = Some \<lparr>TxHash = 0xabc\<rparr>"
    by simp_all
  show ?thesis
    using h1 h3 h5 h6 h7 h8 h11 h0
      setApprovalAmount_requery_error [OF h1 pos h3 pos h5 h6 h7 h8 h9 h10 h11]
    by simp
qed

subsection \<open>initL1Current\<close>


text \<open>
  C1. With no starting block ID supplied and \<open>lastVerifiedBlockID = 0\<close> in the protocol
  state, and the header lookup at \<open>genesisHeightL1\<close> succeeding, \<open>initL1Current\<close> returns nil
  and has called \<open>SetL1Current\<close> with the header that \<open>HeaderByNumber(genesisHeightL1)\<close>
  returned: its calls are the sync wait, the state read, that lookup and \<open>SetL1Current\<close>.
\<close>

theorem initL1Current_genesis:
  assumes "WaitTillL2ExecutionEngineSynced (rpc p) (world p) = (None, w1)"
      and "GetProtocolStateVariables (rpc p) w1 = (Inr sv, w2)"
      and "LastVerifiedBlockId (slotB sv) = 0"
      and "L1_HeaderByNumber (rpc p) (Some (uint (GenesisHeight (slotA sv)))) w2 = (Inr h, w3)"
  shows "fst (initL1Current None p) = None
       \<and> l1Current (sharedState (snd (initL1Current None p))) = Some h
       \<and> calls (snd (initL1Current None p)) =
           calls p @
             [WaitTillL2ExecutionEngineSynced_call, GetProtocolStateVariables_call,
              HeaderByNumber_call (Some (uint (GenesisHeight (slotA sv)))),
              SetL1Current_call h]
       \<and> world (snd (initL1Current None p)) = w3
       \<and> genesisHeightL1 (snd (initL1Current None p)) = GenesisHeight (slotA sv)"
  using assms by (simp add: initL1Current_def invoke_def SetL1Current_def)

theorem initL1Current_genesis_witness:
  "WaitTillL2ExecutionEngineSynced (rpc scenario_genesis) (world scenario_genesis) = (None, 1)
   \<and> GetProtocolStateVariables (rpc scenario_genesis) 1 = (Inr (demo_stateVars 5 0), 2)
   \<and> LastVerifiedBlockId (slotB (demo_stateVars 5 0)) = 0
   \<and> L1_HeaderByNumber (rpc scenario_genesis) (Some (uint (GenesisHeight (slotA (demo_stateVars 5 0))))) 2 =
       (Inr (Header 5 0x5), 3)
   \<and> fst (initL1Current None scenario_genesis) = None
   \<and> l1Current (sharedState (snd (initL1Current None scenario_genesis))) = Some (Header 5 0x5)
   \<and> calls (snd (initL1Current None scenario_genesis)) =
       [WaitTillL2ExecutionEngineSynced_call, GetProtocolStateVariables_call,
        HeaderByNumber_call (Some 5), SetL1Current_call (Header 5 0x5)]"
proof -
  have h1: "WaitTillL2ExecutionEngineSynced (rpc scenario_genesis) (world scenario_genesis) = (None, 1)"
    and h2: "GetProtocolStateVariables (rpc scenario_genesis) 1 = (Inr (demo_stateVars 5 0), 2)"
    and h3: "LastVerifiedBlockId (slotB (demo_stateVars 5 0)) = 0"
    and h4: "L1_HeaderByNumber (rpc scenario_genesis)
               (Some (uint (GenesisHeight (slotA (demo_stateVars 5 0))))) 2 = (Inr (Header 5 0x5), 3)"
    and h0: "calls scenario_genesis = []"
    by (simp_all add: scenario_defs demo_defs)
  have g: "uint (GenesisHeight (slotA (demo_stateVars 5 0))) = 5"
    by (simp add: demo_defs)
  show ?thesis
    using h1 h2 h3 h4 h0 g initL1Current_genesis [OF h1 h2 h3 h4] by simp
qed




text \<open>
  C6, as the code has it. Once the engine is synced and the protocol state is read: a
  starting block ID that was supplied, zero included, is the ID of the L1 origin lookup,
  in place of \<open>lastVerifiedBlockID\<close>; with none supplied and \<open>lastVerifiedBlockID\<close> not zero,
  the lookup is made for \<open>lastVerifiedBlockID\<close>; with none supplied and
  \<open>lastVerifiedBlockID = 0\<close>, no L1 origin lookup is made, the header at \<open>genesisHeightL1\<close> is
  looked up and, when that succeeds, the cursor is set to it.
\<close>

theorem initL1Current_starting_id:
  assumes "WaitTillL2ExecutionEngineSynced (rpc p) (world p) = (None, w1)"
      and "GetProtocolStateVariables (rpc p) w1 = (Inr sv, w2)"
  shows "(\<forall>sid. startingBlockID = Some sid \<longrightarrow>
            take 4 (drop (length (calls p)) (calls (snd (initL1Current startingBlockID p)))) =
              [WaitTillL2ExecutionEngineSynced_call, GetProtocolStateVariables_call,
               Log Info ''Init L1Current cursor'' [(''startingBlockID'', LInt sid)],
               L1OriginByID_call sid])
       \<and> (startingBlockID = None \<and> LastVerifiedBlockId (slotB sv) \<noteq> 0 \<longrightarrow>
            take 4 (drop (length (calls p)) (calls (snd (initL1Current startingBlockID p)))) =
              [WaitTillL2ExecutionEngineSynced_call, GetProtocolStateVariables_call,
               Log Info ''Init L1Current cursor''
                 [(''startingBlockID'', LInt (uint (LastVerifiedBlockId (slotB sv))))],
               L1OriginByID_call (uint (LastVerifiedBlockId (slotB sv)))])
       \<and> (startingBlockID = None \<and> LastVerifiedBlockId (slotB sv) = 0 \<longrightarrow>
            take 3 (drop (length (calls p)) (calls (snd (initL1Current startingBlockID p)))) =
              [WaitTillL2ExecutionEngineSynced_call, GetProtocolStateVariables_call,
               HeaderByNumber_call (Some (uint (GenesisHeight (slotA sv))))]
            \<and> count_calls is_L1OriginByID (calls (snd (initL1Current startingBlockID p))) =
                count_calls is_L1OriginByID (calls p)
            \<and> (\<forall>h w3. L1_HeaderByNumber (rpc p) (Some (uint (GenesisHeight (slotA sv)))) w2 = (Inr h, w3) \<longrightarrow>
                  fst (initL1Current startingBlockID p) = None
                  \<and> l1Current (sharedState (snd (initL1Current startingBlockID p))) = Some h))"
proof -
  obtain r p' where run: "initL1Current startingBlockID p = (r, p')"
    by (cases "initL1Current startingBlockID p")
  from run assms have props:
    "(\<forall>sid. startingBlockID = Some sid \<longrightarrow>
            take 4 (drop (length (calls p)) (calls p')) =
              [WaitTillL2ExecutionEngineSynced_call, GetProtocolStateVariables_call,
               Log Info ''Init L1Current cursor'' [(''startingBlockID'', LInt sid)],
               L1OriginByID_call sid])
       \<and> (startingBlockID = None \<and> LastVerifiedBlockId (slotB sv) \<noteq> 0 \<longrightarrow>
            take 4 (drop (length (calls p)) (calls p')) =
              [WaitTillL2ExecutionEngineSynced_call, GetProtocolStateVariables_call,
               Log Info ''Init L1Current cursor''
                 [(''startingBlockID'', LInt (uint (LastVerifiedBlockId (slotB sv))))],
               L1OriginByID_call (uint (LastVerifiedBlockId (slotB sv)))])
       \<and> (startingBlockID = None \<and> LastVerifiedBlockId (slotB sv) = 0 \<longrightarrow>
            take 3 (drop (length (calls p)) (calls p')) =
              [WaitTillL2ExecutionEngineSynced_call, GetProtocolStateVariables_call,
               HeaderByNumber_call (Some (uint (GenesisHeight (slotA sv))))]
            \<and> count_calls is_L1OriginByID (calls p') = count_calls is_L1OriginByID (calls p)
            \<and> (\<forall>h w3. L1_HeaderByNumber (rpc p) (Some (uint (GenesisHeight (slotA sv)))) w2 = (Inr h, w3) \<longrightarrow>
                  r = None \<and> l1Current (sharedState p') = Some h))"
    by (auto simp: initL1Current_def initL1Current_fromOrigin_def invoke_def log_line_def
          SetL1Current_def Let_def split: option.splits sum.splits prod.splits if_splits)
  show ?thesis unfolding run fst_conv snd_conv by (rule props)
qed

theorem initL1Current_starting_id_witness:
  "WaitTillL2ExecutionEngineSynced (rpc scenario_genesis) (world scenario_genesis) = (None, 1)
   \<and> GetProtocolStateVariables (rpc scenario_genesis) 1 = (Inr (demo_stateVars 5 0), 2)
   \<and> take 4 (calls (snd (initL1Current (Some 0) scenario_genesis))) =
       [WaitTillL2ExecutionEngineSynced_call, GetProtocolStateVariables_call,
        Log Info ''Init L1Current cursor'' [(''startingBlockID'', LInt 0)],
        L1OriginByID_call 0]
   \<and> take 3 (calls (snd (initL1Current None scenario_genesis))) =
       [WaitTillL2ExecutionEngineSynced_call, GetProtocolStateVariables_call,
        HeaderByNumber_call (Some 5)]
   \<and> count_calls is_L1OriginByID (calls (snd (initL1Current None scenario_genesis))) = 0
   \<and> l1Current (sharedState (snd (initL1Current None scenario_genesis))) = Some (Header 5 0x5)
   \<and> GetProtocolStateVariables (rpc scenario_verified) 1 = (Inr (demo_stateVars 5 7), 2)
   \<and> take 4 (calls (snd (initL1Current None scenario_verified))) =
       [WaitTillL2ExecutionEngineSynced_call, GetProtocolStateVariables_call,
        Log Info ''Init L1Current cursor'' [(''startingBlockID'', LInt 7)],
        L1OriginByID_call 7]"
proof -
  have g1: "WaitTillL2ExecutionEngineSynced (rpc scenario_genesis) (world scenario_genesis) = (None, 1)"
    and g2: "GetProtocolStateVariables (rpc scenario_genesis) 1 = (Inr (demo_stateVars 5 0), 2)"
    and g4: "L1_HeaderByNumber (rpc scenario_genesis) (Some 5) 2 = (Inr (Header 5 0x5), 3)"
    and g0: "calls scenario_genesis = []"
    by (simp_all add: scenario_defs demo_defs)
  have v1: "WaitTillL2ExecutionEngineSynced (rpc scenario_verified) (world scenario_verified) = (None, 1)"
    and v2: "GetProtocolStateVariables (rpc scenario_verified) 1 = (Inr (demo_stateVars 5 7), 2)"
    and v0: "calls scenario_verified = []"
    by (simp_all add: scenario_defs demo_defs)
  have sv: "LastVerifiedBlockId (slotB (demo_stateVars 5 0)) = 0"
    "LastVerifiedBlockId (slotB (demo_stateVars 5 7)) = 7"
    "GenesisHeight (slotA (demo_stateVars 5 0)) = 5"
    by (simp_all add: demo_defs)
  show ?thesis
    using g1 g2 g4 g0 v2 v0 sv
      initL1Current_starting_id [OF g1 g2, of "Some 0"]
      initL1Current_starting_id [OF g1 g2, of None]
      initL1Current_starting_id [OF v1 v2, of None]
    by simp
qed

text \<open>
  C6 as stated fails: with the explicit starting block ID 0 the run goes through the L1
  origin lookup for block 0 and sets the cursor to the header of that origin, not to the
  header at \<open>genesisHeightL1\<close>.
\<close>

theorem initL1Current_explicit_zero_counterexample:
  "fst (L1_HeaderByNumber (rpc scenario_genesis) (Some 5) 2) = Inr (Header 5 0x5)
   \<and> fst (initL1Current (Some 0) scenario_genesis) = None
   \<and> l1Current (sharedState (snd (initL1Current (Some 0) scenario_genesis))) = Some (Header 77 0x77)
   \<and> calls (snd (initL1Current (Some 0) scenario_genesis)) =
       [WaitTillL2ExecutionEngineSynced_call, GetProtocolStateVariables_call,
        Log Info ''Init L1Current cursor'' [(''startingBlockID'', LInt 0)],
        L1OriginByID_call 0, HeaderByHash_call 0x77, SetL1Current_call (Header 77 0x77)]"
  by (simp add: initL1Current_defs scenario_defs demo_defs)



subsection \<open>initProofSubmitters\<close>








end
